theory Spec2Isabelle
  imports Main
begin

section \<open>DOM values\<close>

text \<open>
  The block handled by \<^verbatim>\<open>blocks/image-link/image-link.js\<close> is a DOM tree. A node is a
  text node or an element with a local name, an ordered attribute list and an ordered
  list of child nodes. A JavaScript string is a list of code units; the 8-bit \<^typ>\<open>char\<close>
  covers the code units below 256.

  A reference that may be \<^verbatim>\<open>null\<close> or \<^verbatim>\<open>undefined\<close> is an \<^typ>\<open>'a option\<close>. The
  exceptions the calls of the code can raise are the \<^verbatim>\<open>TypeError\<close> of a member access
  on such a reference, of a call of what is not a function and of a spread of what is
  not iterable, and the \<^verbatim>\<open>HierarchyRequestError\<close> of an insertion the DOM refuses, so
  the result of a function body is an error or a value.
\<close>

datatype node = Text string | Element string "(string \<times> string) list" "node list"

datatype js_error = TypeError | HierarchyRequestError

definition andThen :: "js_error + 'a \<Rightarrow> ('a \<Rightarrow> js_error + 'b) \<Rightarrow> js_error + 'b" where
  "andThen m f = (case m of Inl e \<Rightarrow> Inl e | Inr x \<Rightarrow> f x)"

text \<open>\<^verbatim>\<open>r.f\<close> on a reference \<^verbatim>\<open>r\<close>: a \<^verbatim>\<open>TypeError\<close> when \<^verbatim>\<open>r\<close> is null or undefined.\<close>

definition deref :: "node option \<Rightarrow> (node \<Rightarrow> 'a) \<Rightarrow> js_error + 'a" where
  "deref r f = (case r of None \<Rightarrow> Inl TypeError | Some e \<Rightarrow> Inr (f e))"

text \<open>\<^verbatim>\<open>a || b\<close> where \<^verbatim>\<open>a\<close> is a string or undefined and \<^verbatim>\<open>b\<close> is a string: the empty
  string and undefined are falsy.\<close>

definition js_or :: "string option \<Rightarrow> string \<Rightarrow> string" where
  "js_or a b = (case a of None \<Rightarrow> b | Some s \<Rightarrow> if s \<noteq> [] then s else b)"

text \<open>\<^verbatim>\<open>a || b\<close> where \<^verbatim>\<open>b\<close> is an expression that reads a member: \<^verbatim>\<open>b\<close> is evaluated
  only when \<^verbatim>\<open>a\<close> is falsy.\<close>

definition js_or_else :: "string option \<Rightarrow> js_error + string \<Rightarrow> js_error + string" where
  "js_or_else a b = (case a of None \<Rightarrow> b | Some s \<Rightarrow> if s \<noteq> [] then Inr s else b)"

text \<open>\<^verbatim>\<open>xs[i]\<close> on an array: undefined out of range.\<close>

definition nth_opt :: "'a list \<Rightarrow> nat \<Rightarrow> 'a option" where
  "nth_opt xs i = (if i < length xs then Some (xs ! i) else None)"

fun localName :: "node \<Rightarrow> string" where
  "localName (Text s) = ''#text''"
| "localName (Element t atts ks) = t"

fun attributes :: "node \<Rightarrow> (string \<times> string) list" where
  "attributes (Text s) = []"
| "attributes (Element t atts ks) = atts"

fun childNodes :: "node \<Rightarrow> node list" where
  "childNodes (Text s) = []"
| "childNodes (Element t atts ks) = ks"

fun isElement :: "node \<Rightarrow> bool" where
  "isElement (Text s) = False"
| "isElement (Element t atts ks) = True"

text \<open>\<^verbatim>\<open>block.children\<close>: the child nodes that are elements.\<close>

definition children :: "node \<Rightarrow> node list" where
  "children n = filter isElement (childNodes n)"

text \<open>\<^verbatim>\<open>document.createElement(tag)\<close>: a new element, no attribute, no child.\<close>

definition createElement :: "string \<Rightarrow> node" where
  "createElement t = Element t [] []"

text \<open>Setting an attribute replaces the value of an attribute of that name where it
  stands, or appends a new attribute.\<close>

fun setAttribute :: "(string \<times> string) list \<Rightarrow> string \<Rightarrow> string \<Rightarrow> (string \<times> string) list" where
  "setAttribute [] k v = [(k, v)]"
| "setAttribute ((k', v') # atts) k v =
     (if k' = k then (k, v) # atts else (k', v') # setAttribute atts k v)"

definition getAttribute :: "node \<Rightarrow> string \<Rightarrow> string option" where
  "getAttribute e k = map_of (attributes e) k"

text \<open>
  The properties the code assigns (\<^verbatim>\<open>media\<close>, \<^verbatim>\<open>srcset\<close>, \<^verbatim>\<open>src\<close>, \<^verbatim>\<open>alt\<close>,
  \<^verbatim>\<open>loading\<close>, \<^verbatim>\<open>href\<close>, \<^verbatim>\<open>target\<close>, \<^verbatim>\<open>title\<close>, \<^verbatim>\<open>rel\<close>) reflect the content
  attribute of the same name: an assignment sets the attribute.
\<close>

fun setProp :: "node \<Rightarrow> string \<Rightarrow> string \<Rightarrow> node" where
  "setProp (Text s) k v = Text s"
| "setProp (Element t atts ks) k v = Element t (setAttribute atts k v) ks"

text \<open>Reading \<^verbatim>\<open>alt\<close> or \<^verbatim>\<open>title\<close> gives the attribute's value, the empty string when
  the attribute is absent.\<close>

definition getProp :: "node \<Rightarrow> string \<Rightarrow> string" where
  "getProp e k = (case getAttribute e k of None \<Rightarrow> [] | Some v \<Rightarrow> v)"

text \<open>
  Reading \<^verbatim>\<open>src\<close> or \<^verbatim>\<open>href\<close> gives the empty string when the attribute is absent and
  otherwise the attribute's value resolved against the document's base URL. The
  resolution belongs to the browser; it is the parameter \<open>resolve\<close> of the model.
\<close>

definition getUrlProp :: "(string \<Rightarrow> string) \<Rightarrow> node \<Rightarrow> string \<Rightarrow> string" where
  "getUrlProp resolve e k = (case getAttribute e k of None \<Rightarrow> [] | Some v \<Rightarrow> resolve v)"

text \<open>\<^verbatim>\<open>parent.appendChild(child)\<close> for a child that has no parent: the child becomes
  the last child of an element; a text node takes no child.\<close>

fun appendChild :: "node \<Rightarrow> node \<Rightarrow> js_error + node" where
  "appendChild (Text s) c = Inl HierarchyRequestError"
| "appendChild (Element t atts ks) c = Inr (Element t atts (ks @ [c]))"

text \<open>\<^verbatim>\<open>e.cloneNode(true)\<close>: a copy of the whole subtree; as a value, the subtree.\<close>

definition cloneNode :: "node \<Rightarrow> node" where
  "cloneNode e = e"

text \<open>The elements of a subtree in document order, its root first.\<close>

fun subtreeElements :: "node \<Rightarrow> node list" where
  "subtreeElements (Text s) = []"
| "subtreeElements (Element t atts ks) = Element t atts ks # concat (map subtreeElements ks)"

text \<open>\<^verbatim>\<open>e.querySelector(name)\<close> with a type selector: the first descendant element of
  that name in document order, \<^verbatim>\<open>null\<close> when there is none.\<close>

definition querySelector :: "node \<Rightarrow> string \<Rightarrow> node option" where
  "querySelector e sel =
     find (\<lambda>d. localName d = sel) (concat (map subtreeElements (childNodes e)))"

text \<open>\<^verbatim>\<open>e.textContent\<close>: the data of the text nodes of the subtree, in document order.\<close>

fun textContent :: "node \<Rightarrow> string" where
  "textContent (Text s) = s"
| "textContent (Element t atts ks) = concat (map textContent ks)"

text \<open>\<^verbatim>\<open>e.textContent = s\<close>: every child is removed; a text node holding \<open>s\<close> is the only
  child when \<open>s\<close> is not empty.\<close>

fun setTextContent :: "node \<Rightarrow> string \<Rightarrow> node" where
  "setTextContent (Text s') s = Text s"
| "setTextContent (Element t atts ks) s = Element t atts (if s = [] then [] else [Text s])"

text \<open>\<^verbatim>\<open>s.trim()\<close>: white space and line terminators are removed at both ends. Below
  code unit 256 these are TAB, LF, VT, FF, CR, SPACE and NBSP.\<close>

definition isWhiteSpace :: "char \<Rightarrow> bool" where
  "isWhiteSpace c \<longleftrightarrow>
     c \<in> set [CHR 0x09, CHR 0x0A, CHR 0x0B, CHR 0x0C, CHR 0x0D, CHR 0x20, CHR 0xA0]"

definition trim :: "string \<Rightarrow> string" where
  "trim s = rev (dropWhile isWhiteSpace (rev (dropWhile isWhiteSpace s)))"

section \<open>The picture builder\<close>

text \<open>
  \<^verbatim>\<open>createResponsivePicture(desktopPicture, mobilePicture, alt)\<close>, lines 8 to 50. The
  two pictures are elements or null; \<^verbatim>\<open>alt\<close> is a string or undefined.
\<close>

definition createResponsivePicture ::
  "(string \<Rightarrow> string) \<Rightarrow> node option \<Rightarrow> node option \<Rightarrow> string option \<Rightarrow> js_error + node" where
  "createResponsivePicture resolve desktopPicture mobilePicture alt =
    (let picture = createElement ''picture'';
         desktopImg = Option.bind desktopPicture (\<lambda>p. querySelector p ''img'');
         mobileImg = Option.bind mobilePicture (\<lambda>p. querySelector p ''img'');
         fallbackImg = (if desktopImg \<noteq> None then desktopImg else mobileImg)
     in if fallbackImg = None then Inr picture
        else andThen
          (if desktopImg \<noteq> None \<and> mobileImg \<noteq> None
           then andThen (deref desktopImg (\<lambda>e. getUrlProp resolve e ''src'')) (\<lambda>d.
                andThen (deref mobileImg (\<lambda>e. getUrlProp resolve e ''src'')) (\<lambda>m.
                Inr (d \<noteq> m)))
           else Inr False)
          (\<lambda>responsive.
            if responsive then
              let mobileSource = createElement ''source'';
                  mobileSource = setProp mobileSource ''media'' ''(max-width: 767px)''
              in andThen (deref mobileImg (\<lambda>e. getUrlProp resolve e ''src'')) (\<lambda>mobileSrc.
              let mobileSource = setProp mobileSource ''srcset'' mobileSrc
              in andThen (appendChild picture mobileSource) (\<lambda>picture.
              let desktopSource = createElement ''source'';
                  desktopSource = setProp desktopSource ''media'' ''(min-width: 768px)''
              in andThen (deref desktopImg (\<lambda>e. getUrlProp resolve e ''src'')) (\<lambda>desktopSrc.
              let desktopSource = setProp desktopSource ''srcset'' desktopSrc
              in andThen (appendChild picture desktopSource) (\<lambda>picture.
              let img = createElement ''img''
              in andThen (deref desktopImg (\<lambda>e. getUrlProp resolve e ''src'')) (\<lambda>desktopSrc.
              let img = setProp img ''src'' desktopSrc
              in andThen (js_or_else alt (deref desktopImg (\<lambda>e. getProp e ''alt''))) (\<lambda>a.
              let img = setProp img ''alt'' (js_or (Some a) []);
                  img = setProp img ''loading'' ''lazy''
              in appendChild picture img))))))
            else
              andThen (deref fallbackImg cloneNode) (\<lambda>img.
              andThen (js_or_else alt (Inr (getProp img ''alt''))) (\<lambda>a.
              let img = setProp img ''alt'' (js_or (Some a) []);
                  img = setProp img ''loading'' ''lazy''
              in appendChild picture img))))"

section \<open>The link wrapper\<close>

text \<open>\<^verbatim>\<open>createLink(href, title, target, picture)\<close>, lines 60 to 76.\<close>

definition createLink :: "string \<Rightarrow> string \<Rightarrow> string \<Rightarrow> node \<Rightarrow> js_error + node" where
  "createLink href title target picture =
    (let link = createElement ''a'';
         link = setProp link ''href'' href;
         link = setProp link ''target'' target;
         link = (if title \<noteq> [] then setProp link ''title'' title else link);
         link = (if target = ''_blank'' then setProp link ''rel'' ''noopener noreferrer'' else link)
     in appendChild link picture)"

section \<open>The block decorator\<close>

text \<open>
  The block and its rows are elements of any kind, and the anchor of row 3 is any element
  named \<^verbatim>\<open>a\<close>. What a member read gives on them depends on facts of the page that the
  tree (names, attributes, children) does not hold. They are the parameter \<open>host\<close>:

  \<^item> An HTML form reads the name of one of its controls before any built-in member.
    \<^verbatim>\<open>block.children\<close> is then the control, which cannot be spread, or the list of the
    controls of that name, which is spread in place of the rows. A row's
    \<^verbatim>\<open>querySelector\<close> or \<^verbatim>\<open>textContent\<close> and the block's \<^verbatim>\<open>appendChild\<close> are then a
    control or a list of controls: the call of \<^verbatim>\<open>querySelector\<close>, of \<^verbatim>\<open>trim\<close> or of
    \<^verbatim>\<open>appendChild\<close> is a \<^verbatim>\<open>TypeError\<close>. An assignment to \<^verbatim>\<open>textContent\<close> always
    reaches the built-in setter.
  \<^item> An element named \<^verbatim>\<open>a\<close> is an HTML anchor, an SVG \<^verbatim>\<open>a\<close> or another element. The
    \<^verbatim>\<open>href\<close> of an HTML anchor is a string, that of an SVG \<^verbatim>\<open>a\<close> is an object, and
    another element has none; only the HTML anchor has a \<^verbatim>\<open>title\<close>.
\<close>

datatype named_member = BuiltIn | OneControl | ControlList "node list"

datatype interface = HTMLAnchorElement | SVGAElement | OtherElement

datatype js_value = Undefined | Str string | Obj string

record host =
  childrenMember :: named_member
  appendChildShadowed :: bool
  rowShadowed :: "nat \<Rightarrow> string \<Rightarrow> bool"
  linkInterface :: interface

text \<open>Truthiness, and the conversion to a string that the assignment to \<^verbatim>\<open>link.href\<close>
  performs; an object carries the string it converts to.\<close>

fun truthy :: "js_value \<Rightarrow> bool" where
  "truthy Undefined = False"
| "truthy (Str s) = (s \<noteq> [])"
| "truthy (Obj s) = True"

fun toString :: "js_value \<Rightarrow> string" where
  "toString Undefined = ''undefined''"
| "toString (Str s) = s"
| "toString (Obj s) = s"

text \<open>\<^verbatim>\<open>[...block.children]\<close>, line 97. A text node has no \<^verbatim>\<open>children\<close>, and spreading
  undefined is a \<^verbatim>\<open>TypeError\<close>.\<close>

definition spreadChildren :: "host \<Rightarrow> node \<Rightarrow> js_error + node list" where
  "spreadChildren host block =
     (if \<not> isElement block then Inl TypeError
      else case childrenMember host of
             BuiltIn \<Rightarrow> Inr (children block)
           | OneControl \<Rightarrow> Inl TypeError
           | ControlList cs \<Rightarrow> Inr cs)"

text \<open>\<^verbatim>\<open>rows[i]?.querySelector(name)\<close>, lines 101, 102 and 104.\<close>

definition rowQuerySelector ::
  "host \<Rightarrow> node list \<Rightarrow> nat \<Rightarrow> string \<Rightarrow> js_error + node option" where
  "rowQuerySelector host rows i sel =
     (case nth_opt rows i of
        None \<Rightarrow> Inr None
      | Some r \<Rightarrow>
          if rowShadowed host i ''querySelector'' then Inl TypeError
          else Inr (querySelector r sel))"

text \<open>\<^verbatim>\<open>rows[i]?.textContent.trim()\<close>, lines 103 and 109.\<close>

definition rowTextTrim :: "host \<Rightarrow> node list \<Rightarrow> nat \<Rightarrow> js_error + string option" where
  "rowTextTrim host rows i =
     (case nth_opt rows i of
        None \<Rightarrow> Inr None
      | Some r \<Rightarrow>
          if rowShadowed host i ''textContent'' then Inl TypeError
          else Inr (Some (trim (textContent r))))"

text \<open>\<^verbatim>\<open>linkElement.title\<close> and \<^verbatim>\<open>linkElement.href\<close>, lines 107, 128 and 129.\<close>

definition titleOf :: "host \<Rightarrow> node \<Rightarrow> string option" where
  "titleOf host e =
     (case linkInterface host of
        HTMLAnchorElement \<Rightarrow> Some (getProp e ''title'')
      | SVGAElement \<Rightarrow> None
      | OtherElement \<Rightarrow> None)"

definition hrefOf :: "(string \<Rightarrow> string) \<Rightarrow> host \<Rightarrow> node \<Rightarrow> js_value" where
  "hrefOf resolve host e =
     (case linkInterface host of
        HTMLAnchorElement \<Rightarrow> Str (getUrlProp resolve e ''href'')
      | SVGAElement \<Rightarrow> Obj ''[object SVGAnimatedString]''
      | OtherElement \<Rightarrow> Undefined)"

text \<open>\<^verbatim>\<open>block.appendChild(child)\<close>, lines 130 and 132.\<close>

definition blockAppendChild :: "host \<Rightarrow> node \<Rightarrow> node \<Rightarrow> js_error + node" where
  "blockAppendChild host block c =
     (if appendChildShadowed host then Inl TypeError else appendChild block c)"

text \<open>
  \<^verbatim>\<open>decorate(block)\<close>, lines 96 to 134. The block is changed in place; the model returns
  the block as it is after the call, or the error that the call raises.
\<close>

definition errorMessage :: string where
  "errorMessage = ''Image Link: Please add at least one image''"

definition decorate :: "(string \<Rightarrow> string) \<Rightarrow> host \<Rightarrow> node \<Rightarrow> js_error + node" where
  "decorate resolve host block =
    andThen (spreadChildren host block) (\<lambda>rows.
    andThen (rowQuerySelector host rows 0 ''picture'') (\<lambda>desktopPicture.
    andThen (rowQuerySelector host rows 1 ''picture'') (\<lambda>mobilePicture.
    andThen (rowTextTrim host rows 2) (\<lambda>alt.
    andThen (rowQuerySelector host rows 3 ''a'') (\<lambda>linkElement.
    let linkTitle = js_or (Option.bind linkElement (titleOf host)) ''''
    in andThen (rowTextTrim host rows 4) (\<lambda>target.
    let linkTarget = js_or target ''_self''
    in if desktopPicture = None \<and> mobilePicture = None
       then Inr (setTextContent block errorMessage)
       else
         let block = setTextContent block ''''
         in andThen (createResponsivePicture resolve desktopPicture mobilePicture alt) (\<lambda>picture.
            andThen
              (if linkElement \<noteq> None
               then andThen (deref linkElement (hrefOf resolve host)) (\<lambda>h. Inr (truthy h))
               else Inr False)
              (\<lambda>wrap.
                if wrap then
                  andThen (deref linkElement (hrefOf resolve host)) (\<lambda>h.
                  andThen (createLink (toString h) linkTitle linkTarget picture) (\<lambda>link.
                    blockAppendChild host block link))
                else blockAppendChild host block picture))))))))"

text \<open>
  The members that \<open>decorate\<close> reads before the validation gate are the built-in ones:
  no form control of the block is named \<^verbatim>\<open>children\<close>, and none of a row is named with
  the member read from that row.
\<close>

definition readsRows :: "host \<Rightarrow> bool" where
  "readsRows host \<longleftrightarrow>
     childrenMember host = BuiltIn \<and>
     \<not> rowShadowed host 0 ''querySelector'' \<and>
     \<not> rowShadowed host 1 ''querySelector'' \<and>
     \<not> rowShadowed host 2 ''textContent'' \<and>
     \<not> rowShadowed host 3 ''querySelector'' \<and>
     \<not> rowShadowed host 4 ''textContent''"

text \<open>
  All the members that \<open>decorate\<close> reads from the block and from the rows are the
  built-in ones: in addition, no form control of the block is named \<^verbatim>\<open>appendChild\<close>.
  Both conditions hold when neither the block nor a row is a form.
\<close>

definition readsBuiltIns :: "host \<Rightarrow> bool" where
  "readsBuiltIns host \<longleftrightarrow> readsRows host \<and> \<not> appendChildShadowed host"

section \<open>Elements as references\<close>

text \<open>
  A JavaScript variable holds a reference to an element, and \<^verbatim>\<open>appendChild\<close> moves the
  element it is given: the element leaves the parent it had. Whether a call changes an
  element that existed before it is a question about references, so the picture builder
  is modelled a second time over a store.

  The store is the list of the trees that have no parent, in the order of their creation;
  a tree that has been moved under an element of another tree leaves \<open>None\<close> at its place.
  A reference is the index of a tree in the store and, from the root of that tree, the
  path of child positions to the element. A reference that denotes nothing in the store
  behaves as \<^verbatim>\<open>null\<close>.
\<close>

type_synonym ref = "nat \<times> nat list"

type_synonym store = "node option list"

fun subtreeAt :: "node \<Rightarrow> nat list \<Rightarrow> node option" where
  "subtreeAt n [] = Some n"
| "subtreeAt n (i # p) =
     (if i < length (childNodes n) then subtreeAt (childNodes n ! i) p else None)"

definition lookup :: "store \<Rightarrow> ref \<Rightarrow> node option" where
  "lookup s r =
     (if fst r < length s then Option.bind (s ! fst r) (\<lambda>t. subtreeAt t (snd r)) else None)"

text \<open>The tree with the node at a path replaced by its image under \<open>f\<close>.\<close>

fun updateAt :: "nat list \<Rightarrow> (node \<Rightarrow> node) \<Rightarrow> node \<Rightarrow> node" where
  "updateAt [] f n = f n"
| "updateAt (i # p) f (Text s) = Text s"
| "updateAt (i # p) f (Element t atts ks) =
     Element t atts (if i < length ks then ks[i := updateAt p f (ks ! i)] else ks)"

text \<open>The tree without the node at a path that is not empty.\<close>

fun removeAt :: "nat list \<Rightarrow> node \<Rightarrow> node" where
  "removeAt [] n = n"
| "removeAt p (Text s) = Text s"
| "removeAt [i] (Element t atts ks) = Element t atts (take i ks @ drop (Suc i) ks)"
| "removeAt (i # p) (Element t atts ks) =
     Element t atts (if i < length ks then ks[i := removeAt p (ks ! i)] else ks)"

text \<open>The path of a node after the node at path \<open>c\<close> has left the tree: a later sibling
  of that node, and what is below it, moves one position down.\<close>

fun adjustPath :: "nat list \<Rightarrow> nat list \<Rightarrow> nat list" where
  "adjustPath [i] (j # q) = (if i < j then (j - 1) # q else j # q)"
| "adjustPath (i # c) (j # q) = (if i = j then j # adjustPath c q else j # q)"
| "adjustPath c q = q"

definition modify :: "store \<Rightarrow> ref \<Rightarrow> (node \<Rightarrow> node) \<Rightarrow> store" where
  "modify s r f =
     (if fst r < length s then s[fst r := map_option (updateAt (snd r) f) (s ! fst r)] else s)"

text \<open>\<^verbatim>\<open>document.createElement(tag)\<close>: a new tree of the store.\<close>

definition createElementS :: "store \<Rightarrow> string \<Rightarrow> store \<times> ref" where
  "createElementS s t = (s @ [Some (createElement t)], (length s, []))"

text \<open>\<^verbatim>\<open>r.k = v\<close> for a reflecting property.\<close>

definition setPropS :: "store \<Rightarrow> ref \<Rightarrow> string \<Rightarrow> string \<Rightarrow> store" where
  "setPropS s r k v = modify s r (\<lambda>e. setProp e k v)"

text \<open>\<^verbatim>\<open>r.f\<close>: reading a member through a reference that may be null.\<close>

definition derefS :: "store \<Rightarrow> ref option \<Rightarrow> (node \<Rightarrow> 'a) \<Rightarrow> js_error + 'a" where
  "derefS s r f = deref (Option.bind r (lookup s)) f"

text \<open>\<^verbatim>\<open>r.cloneNode(true)\<close>: the copy is a new tree of the store.\<close>

definition cloneNodeS :: "store \<Rightarrow> ref option \<Rightarrow> js_error + store \<times> ref" where
  "cloneNodeS s r =
     andThen (derefS s r cloneNode) (\<lambda>c. Inr (s @ [Some c], (length s, [])))"

text \<open>The path to the first element of a given name: in a subtree, its root included, and
  in the subtrees of a list of children that are numbered from \<open>i\<close>, both in document
  order.\<close>

fun selectPath :: "string \<Rightarrow> node \<Rightarrow> nat list option"
  and selectPaths :: "string \<Rightarrow> nat \<Rightarrow> node list \<Rightarrow> nat list option" where
  "selectPath sel (Text s) = None"
| "selectPath sel (Element t atts ks) = (if t = sel then Some [] else selectPaths sel 0 ks)"
| "selectPaths sel i [] = None"
| "selectPaths sel i (k # ks) =
     (case selectPath sel k of Some p \<Rightarrow> Some (i # p) | None \<Rightarrow> selectPaths sel (Suc i) ks)"

text \<open>\<^verbatim>\<open>r.querySelector(name)\<close>: a reference to the first descendant of that name.\<close>

definition querySelectorS :: "store \<Rightarrow> ref \<Rightarrow> string \<Rightarrow> ref option" where
  "querySelectorS s r sel =
     (case lookup s r of
        None \<Rightarrow> None
      | Some e \<Rightarrow> map_option (\<lambda>q. (fst r, snd r @ q)) (selectPaths sel 0 (childNodes e)))"

text \<open>
  \<^verbatim>\<open>parent.appendChild(child)\<close>. The DOM refuses a child that is the parent or contains
  it. Otherwise the child leaves the place it has (its parent's child list, or its place
  among the trees of the store) and becomes the last child of the parent.
\<close>

definition detach :: "store \<Rightarrow> ref \<Rightarrow> store" where
  "detach s child =
     (if snd child = [] then s[fst child := None]
      else modify s (fst child, []) (removeAt (snd child)))"

definition appendChildS :: "store \<Rightarrow> ref \<Rightarrow> ref \<Rightarrow> js_error + store" where
  "appendChildS s parent child =
     (case lookup s child of
        None \<Rightarrow> Inl TypeError
      | Some c \<Rightarrow>
          if fst parent = fst child \<and> take (length (snd child)) (snd parent) = snd child
          then Inl HierarchyRequestError
          else
            let s = detach s child;
                parent = (if fst parent = fst child
                          then (fst parent, adjustPath (snd child) (snd parent)) else parent)
            in andThen (derefS s (Some parent) (\<lambda>p. appendChild p c)) (\<lambda>r.
               andThen r (\<lambda>p. Inr (modify s parent (\<lambda>_. p)))))"

text \<open>
  \<^verbatim>\<open>createResponsivePicture\<close>, lines 8 to 50, statement by statement over the store; the
  arguments and the result are references.
\<close>

definition createResponsivePictureS ::
  "(string \<Rightarrow> string) \<Rightarrow> store \<Rightarrow> ref option \<Rightarrow> ref option \<Rightarrow> string option \<Rightarrow>
     js_error + store \<times> ref" where
  "createResponsivePictureS resolve s desktopPicture mobilePicture alt =
    (let (s, picture) = createElementS s ''picture'';
         desktopImg = Option.bind desktopPicture (\<lambda>p. querySelectorS s p ''img'');
         mobileImg = Option.bind mobilePicture (\<lambda>p. querySelectorS s p ''img'');
         fallbackImg = (if desktopImg \<noteq> None then desktopImg else mobileImg)
     in if fallbackImg = None then Inr (s, picture)
        else andThen
          (if desktopImg \<noteq> None \<and> mobileImg \<noteq> None
           then andThen (derefS s desktopImg (\<lambda>e. getUrlProp resolve e ''src'')) (\<lambda>d.
                andThen (derefS s mobileImg (\<lambda>e. getUrlProp resolve e ''src'')) (\<lambda>m.
                Inr (d \<noteq> m)))
           else Inr False)
          (\<lambda>responsive.
            if responsive then
              let (s, mobileSource) = createElementS s ''source'';
                  s = setPropS s mobileSource ''media'' ''(max-width: 767px)''
              in andThen (derefS s mobileImg (\<lambda>e. getUrlProp resolve e ''src'')) (\<lambda>mobileSrc.
              let s = setPropS s mobileSource ''srcset'' mobileSrc
              in andThen (appendChildS s picture mobileSource) (\<lambda>s.
              let (s, desktopSource) = createElementS s ''source'';
                  s = setPropS s desktopSource ''media'' ''(min-width: 768px)''
              in andThen (derefS s desktopImg (\<lambda>e. getUrlProp resolve e ''src'')) (\<lambda>desktopSrc.
              let s = setPropS s desktopSource ''srcset'' desktopSrc
              in andThen (appendChildS s picture desktopSource) (\<lambda>s.
              let (s, img) = createElementS s ''img''
              in andThen (derefS s desktopImg (\<lambda>e. getUrlProp resolve e ''src'')) (\<lambda>desktopSrc.
              let s = setPropS s img ''src'' desktopSrc
              in andThen (js_or_else alt (derefS s desktopImg (\<lambda>e. getProp e ''alt''))) (\<lambda>a.
              let s = setPropS s img ''alt'' (js_or (Some a) []);
                  s = setPropS s img ''loading'' ''lazy''
              in andThen (appendChildS s picture img) (\<lambda>s.
              Inr (s, picture))))))))
            else
              andThen (cloneNodeS s fallbackImg) (\<lambda>(s, img).
              andThen (js_or_else alt (derefS s (Some img) (\<lambda>e. getProp e ''alt''))) (\<lambda>a.
              let s = setPropS s img ''alt'' (js_or (Some a) []);
                  s = setPropS s img ''loading'' ''lazy''
              in andThen (appendChildS s picture img) (\<lambda>s.
              Inr (s, picture))))))"

section \<open>Example inputs\<close>

text \<open>
  The markup of the documentation comment of \<open>decorate\<close>: a row is a \<^verbatim>\<open>div\<close> in a
  \<^verbatim>\<open>div\<close>. The examples are the inputs at which the theorems below are instantiated.
\<close>

definition exampleRow :: "node \<Rightarrow> node" where
  "exampleRow x = Element ''div'' [] [Element ''div'' [] [x]]"

definition exampleDesktop :: node where
  "exampleDesktop = Element ''picture'' []
     [Element ''source'' [(''srcset'', ''https://x/d.webp'')] [],
      Element ''img'' [(''src'', ''https://x/d.png''), (''alt'', ''Dog'')] []]"

definition exampleMobile :: node where
  "exampleMobile = Element ''picture'' []
     [Element ''img'' [(''src'', ''https://x/m.png''), (''width'', ''400'')] []]"

definition exampleAnchor :: node where
  "exampleAnchor = Element ''a'' [(''href'', ''https://x''), (''title'', ''Go'')] [Text ''Link'']"

definition exampleBlock :: "node list \<Rightarrow> node" where
  "exampleBlock rows = Element ''div'' [(''class'', ''image-link'')] rows"

definition scenarioA :: node where
  "scenarioA = exampleBlock
     [exampleRow exampleDesktop, exampleRow exampleMobile, exampleRow (Text '' A cat ''),
      exampleRow exampleAnchor, exampleRow (Text ''_blank'')]"

text \<open>A page of HTML elements in which no form control hides a member.\<close>

definition htmlHost :: host where
  "htmlHost = \<lparr>childrenMember = BuiltIn, appendChildShadowed = False,
               rowShadowed = (\<lambda>i m. False), linkInterface = HTMLAnchorElement\<rparr>"

text \<open>URL resolution in a document at \<^verbatim>\<open>https://x/page\<close>, on the references of the
  examples: the empty reference resolves to the URL of the document, an absolute URL to
  itself.\<close>

definition documentResolve :: "string \<Rightarrow> string" where
  "documentResolve u = (if u = [] then ''https://x/page'' else u)"

text \<open>An anchor whose \<^verbatim>\<open>href\<close> attribute is the empty string, in row 3 of a block with a
  mobile image.\<close>

definition emptyHrefAnchor :: node where
  "emptyHrefAnchor = Element ''a'' [(''href'', [])] [Text ''Link'']"

definition emptyHrefBlock :: node where
  "emptyHrefBlock = exampleBlock
     [Element ''div'' [] [], exampleRow exampleMobile, Element ''div'' [] [],
      exampleRow emptyHrefAnchor]"

text \<open>A block that is a form with one control named \<^verbatim>\<open>children\<close>, and the page's facts
  about it.\<close>

definition formBlock :: node where
  "formBlock = Element ''form'' [(''class'', ''image-link'')]
     [Element ''input'' [(''name'', ''children'')] [],
      exampleRow exampleMobile]"

definition formHost :: host where
  "formHost = \<lparr>childrenMember = OneControl, appendChildShadowed = False,
               rowShadowed = (\<lambda>i m. False), linkInterface = HTMLAnchorElement\<rparr>"

section \<open>Auxiliary facts\<close>

lemmas example_defs = exampleRow_def exampleDesktop_def exampleMobile_def exampleAnchor_def
  exampleBlock_def

lemmas eval_defs = querySelector_def getUrlProp_def getAttribute_def getProp_def js_or_def
  nth_opt_def children_def trim_def isWhiteSpace_def

lemma map_of_setAttribute:
  "map_of (setAttribute atts k v) k' = (if k' = k then Some v else map_of atts k')"
  by (induction atts) auto

lemma subtreeElements_isElement: "x \<in> set (subtreeElements n) \<Longrightarrow> isElement x"
  by (induction n arbitrary: x) auto

lemma find_SomeD: "find P xs = Some x \<Longrightarrow> x \<in> set xs \<and> P x"
  by (induction xs) (auto split: if_splits)

lemma querySelector_Some:
  assumes "querySelector e sel = Some d"
  shows "isElement d \<and> localName d = sel"
proof -
  from assms have "d \<in> set (concat (map subtreeElements (childNodes e)))" and "localName d = sel"
    unfolding querySelector_def by (auto dest: find_SomeD)
  then show ?thesis by (auto dest: subtreeElements_isElement)
qed

lemma js_or_again: "js_or (Some (js_or a b)) [] = js_or a b"
  by (simp add: js_or_def split: option.splits)

lemma js_or_else_Inr: "js_or_else a (Inr b) = Inr (js_or a b)"
  by (simp add: js_or_else_def js_or_def split: option.splits)

text \<open>The three paths of the picture builder, as equations.\<close>

lemma crp_none:
  assumes "Option.bind desktopPicture (\<lambda>p. querySelector p ''img'') = None"
      and "Option.bind mobilePicture (\<lambda>p. querySelector p ''img'') = None"
  shows "createResponsivePicture resolve desktopPicture mobilePicture alt =
           Inr (Element ''picture'' [] [])"
  using assms by (simp add: createResponsivePicture_def createElement_def Let_def)

lemma crp_responsive:
  assumes "Option.bind desktopPicture (\<lambda>p. querySelector p ''img'') = Some d"
      and "Option.bind mobilePicture (\<lambda>p. querySelector p ''img'') = Some m"
      and "getUrlProp resolve d ''src'' \<noteq> getUrlProp resolve m ''src''"
  shows "createResponsivePicture resolve desktopPicture mobilePicture alt =
    Inr (Element ''picture'' []
      [Element ''source''
         [(''media'', ''(max-width: 767px)''), (''srcset'', getUrlProp resolve m ''src'')] [],
       Element ''source''
         [(''media'', ''(min-width: 768px)''), (''srcset'', getUrlProp resolve d ''src'')] [],
       Element ''img''
         [(''src'', getUrlProp resolve d ''src''),
          (''alt'', js_or alt (getProp d ''alt'')),
          (''loading'', ''lazy'')] []])"
  using assms
  by (simp add: createResponsivePicture_def createElement_def Let_def andThen_def deref_def
      js_or_else_Inr js_or_again)

lemma crp_single:
  assumes di: "Option.bind desktopPicture (\<lambda>p. querySelector p ''img'') = desktopImg"
      and mi: "Option.bind mobilePicture (\<lambda>p. querySelector p ''img'') = mobileImg"
      and one: "desktopImg = None \<or> mobileImg = None \<or>
                (\<exists>d m. desktopImg = Some d \<and> mobileImg = Some m \<and>
                   getUrlProp resolve d ''src'' = getUrlProp resolve m ''src'')"
      and f: "(case desktopImg of Some d \<Rightarrow> Some d | None \<Rightarrow> mobileImg) =
                Some (Element t atts ks)"
  shows "createResponsivePicture resolve desktopPicture mobilePicture alt =
    Inr (Element ''picture'' []
      [Element t
         (setAttribute (setAttribute atts ''alt'' (js_or alt (getProp (Element t atts ks) ''alt'')))
            ''loading'' ''lazy'')
         ks])"
proof (cases desktopImg)
  case None
  with f have "mobileImg = Some (Element t atts ks)" by simp
  with None show ?thesis
    by (simp add: createResponsivePicture_def createElement_def Let_def andThen_def deref_def
        js_or_else_Inr js_or_again cloneNode_def di mi)
next
  case (Some d)
  with f have d: "desktopImg = Some (Element t atts ks)" by simp
  show ?thesis
  proof (cases mobileImg)
    case None
    with d show ?thesis
      by (simp add: createResponsivePicture_def createElement_def Let_def andThen_def deref_def
          js_or_else_Inr js_or_again cloneNode_def di mi)
  next
    case (Some m)
    with d one have "getUrlProp resolve (Element t atts ks) ''src'' = getUrlProp resolve m ''src''"
      by simp
    with d Some show ?thesis
      by (simp add: createResponsivePicture_def createElement_def Let_def andThen_def deref_def
          js_or_else_Inr js_or_again cloneNode_def di mi)
  qed
qed

text \<open>The picture builder returns on every input, and what it returns is a picture
  with no child, one image, or two sources and one image.\<close>

lemma crp_shape:
  "\<exists>pic. createResponsivePicture resolve desktopPicture mobilePicture alt = Inr pic \<and>
         localName pic = ''picture'' \<and>
         map localName (childNodes pic) \<in> {[], [''img''], [''source'', ''source'', ''img'']}"
proof -
  define di where "di = Option.bind desktopPicture (\<lambda>p. querySelector p ''img'')"
  define mi where "mi = Option.bind mobilePicture (\<lambda>p. querySelector p ''img'')"
  consider (none) "di = None" "mi = None"
    | (resp) d m where "di = Some d" "mi = Some m"
        "getUrlProp resolve d ''src'' \<noteq> getUrlProp resolve m ''src''"
    | (single) f where "di = None \<or> mi = None \<or>
           (\<exists>d m. di = Some d \<and> mi = Some m \<and>
                  getUrlProp resolve d ''src'' = getUrlProp resolve m ''src'')"
         "(case di of Some d \<Rightarrow> Some d | None \<Rightarrow> mi) = Some f"
    by (cases di; cases mi) auto
  then show ?thesis
  proof cases
    case none
    then show ?thesis
      using crp_none[of desktopPicture mobilePicture resolve alt]
      by (simp add: di_def mi_def)
  next
    case resp
    from crp_responsive[OF resp(1)[unfolded di_def] resp(2)[unfolded mi_def] resp(3), of alt]
    show ?thesis by simp
  next
    case single
    have "di = Some f \<or> mi = Some f"
      using single(2) by (auto split: option.splits)
    then obtain p where "querySelector p ''img'' = Some f"
      unfolding di_def mi_def by (auto split: Option.bind_splits)
    then have "isElement f \<and> localName f = ''img''"
      by (rule querySelector_Some)
    then obtain atts ks where fe: "f = Element ''img'' atts ks"
      by (cases f) auto
    from crp_single[OF di_def[symmetric] mi_def[symmetric] single(1) single(2)[unfolded fe], of alt]
    show ?thesis by simp
  qed
qed

text \<open>The link wrapper, as an equation.\<close>

lemma createLink_eq:
  "createLink href title target picture =
     Inr (Element ''a''
       ([(''href'', href), (''target'', target)] @
        (if title \<noteq> [] then [(''title'', title)] else []) @
        (if target = ''_blank'' then [(''rel'', ''noopener noreferrer'')] else []))
       [picture])"
  by (simp add: createLink_def createElement_def Let_def)

text \<open>The two exits of the block decorator, as equations, when the members read are the
  built-in ones.\<close>

lemma spreadChildren_builtin:
  "childrenMember host = BuiltIn \<Longrightarrow>
   spreadChildren host (Element t atts ks) = Inr (filter isElement ks)"
  by (simp add: spreadChildren_def children_def)

lemma rowQuerySelector_builtin:
  "\<not> rowShadowed host i ''querySelector'' \<Longrightarrow>
   rowQuerySelector host rs i sel = Inr (Option.bind (nth_opt rs i) (\<lambda>r. querySelector r sel))"
  by (simp add: rowQuerySelector_def split: option.splits)

lemma rowTextTrim_builtin:
  "\<not> rowShadowed host i ''textContent'' \<Longrightarrow>
   rowTextTrim host rs i = Inr (map_option (\<lambda>r. trim (textContent r)) (nth_opt rs i))"
  by (simp add: rowTextTrim_def split: option.splits)

lemma decorate_error:
  assumes rr: "readsRows host"
      and d: "Option.bind (nth_opt (filter isElement ks) 0) (\<lambda>r. querySelector r ''picture'') = None"
      and m: "Option.bind (nth_opt (filter isElement ks) 1) (\<lambda>r. querySelector r ''picture'') = None"
  shows "decorate resolve host (Element t atts ks) =
           Inr (Element t atts [Text ''Image Link: Please add at least one image''])"
proof -
  from rr have r: "childrenMember host = BuiltIn"
    "\<not> rowShadowed host 0 ''querySelector''" "\<not> rowShadowed host 1 ''querySelector''"
    "\<not> rowShadowed host 2 ''textContent''" "\<not> rowShadowed host 3 ''querySelector''"
    "\<not> rowShadowed host 4 ''textContent''"
    by (simp_all add: readsRows_def)
  show ?thesis
    unfolding decorate_def spreadChildren_builtin[OF r(1)] rowQuerySelector_builtin[OF r(2)]
      rowQuerySelector_builtin[OF r(3)] rowQuerySelector_builtin[OF r(5)]
      rowTextTrim_builtin[OF r(4)] rowTextTrim_builtin[OF r(6)] andThen_def sum.case Let_def d m
    by (simp add: errorMessage_def)
qed

lemma decorate_render:
  assumes rb: "readsBuiltIns host"
      and dp: "desktopPicture =
                 Option.bind (nth_opt (filter isElement ks) 0) (\<lambda>r. querySelector r ''picture'')"
      and mp: "mobilePicture =
                 Option.bind (nth_opt (filter isElement ks) 1) (\<lambda>r. querySelector r ''picture'')"
      and gate: "desktopPicture \<noteq> None \<or> mobilePicture \<noteq> None"
      and alt: "alt = map_option (\<lambda>r. trim (textContent r)) (nth_opt (filter isElement ks) 2)"
      and le: "linkElement =
                 Option.bind (nth_opt (filter isElement ks) 3) (\<lambda>r. querySelector r ''a'')"
      and pic: "createResponsivePicture resolve desktopPicture mobilePicture alt = Inr picture"
  shows "decorate resolve host (Element t atts ks) =
     (case linkElement of
        None \<Rightarrow> Inr (Element t atts [picture])
      | Some l \<Rightarrow>
          if truthy (hrefOf resolve host l)
          then andThen
                 (createLink (toString (hrefOf resolve host l))
                    (js_or (titleOf host l) [])
                    (js_or (map_option (\<lambda>r. trim (textContent r)) (nth_opt (filter isElement ks) 4))
                       ''_self'')
                    picture)
                 (\<lambda>link. Inr (Element t atts [link]))
          else Inr (Element t atts [picture]))"
proof -
  from rb have r: "childrenMember host = BuiltIn"
    "\<not> rowShadowed host 0 ''querySelector''" "\<not> rowShadowed host 1 ''querySelector''"
    "\<not> rowShadowed host 2 ''textContent''" "\<not> rowShadowed host 3 ''querySelector''"
    "\<not> rowShadowed host 4 ''textContent''" "\<not> appendChildShadowed host"
    by (simp_all add: readsBuiltIns_def readsRows_def)
  have a: "blockAppendChild host (Element t atts []) c = Inr (Element t atts [c])" for c
    using r(7) by (simp add: blockAppendChild_def)
  have g: "\<not> (desktopPicture = None \<and> mobilePicture = None)"
    using gate by simp
  show ?thesis
    unfolding decorate_def spreadChildren_builtin[OF r(1)] rowQuerySelector_builtin[OF r(2)]
      rowQuerySelector_builtin[OF r(3)] rowQuerySelector_builtin[OF r(5)]
      rowTextTrim_builtin[OF r(4)] rowTextTrim_builtin[OF r(6)] andThen_def sum.case Let_def
      dp[symmetric] mp[symmetric] alt[symmetric] le[symmetric] pic if_not_P[OF g]
    by (cases linkElement) (simp_all add: a deref_def cong: sum.case_cong)
qed

text \<open>Past the validation gate the block holds one child: the picture, or an anchor
  around the picture when row 3 has an anchor whose \<^verbatim>\<open>href\<close> reads truthy.\<close>

lemma decorate_child:
  assumes rb: "readsBuiltIns host"
      and dp: "desktopPicture =
                 Option.bind (nth_opt (filter isElement ks) 0) (\<lambda>r. querySelector r ''picture'')"
      and mp: "mobilePicture =
                 Option.bind (nth_opt (filter isElement ks) 1) (\<lambda>r. querySelector r ''picture'')"
      and gate: "desktopPicture \<noteq> None \<or> mobilePicture \<noteq> None"
      and alt: "alt = map_option (\<lambda>r. trim (textContent r)) (nth_opt (filter isElement ks) 2)"
      and le: "linkElement =
                 Option.bind (nth_opt (filter isElement ks) 3) (\<lambda>r. querySelector r ''a'')"
      and pic: "createResponsivePicture resolve desktopPicture mobilePicture alt = Inr picture"
  shows "\<exists>c. decorate resolve host (Element t atts ks) = Inr (Element t atts [c]) \<and>
           (if \<exists>l. linkElement = Some l \<and> truthy (hrefOf resolve host l)
            then \<exists>la. c = Element ''a'' la [picture]
            else c = picture)"
proof (cases linkElement)
  case None
  then show ?thesis
    unfolding decorate_render[OF assms] by simp
next
  case (Some l)
  then show ?thesis
    unfolding decorate_render[OF assms] createLink_eq by (simp add: andThen_def)
qed

text \<open>The \<^verbatim>\<open>href\<close> of the anchor of row 3 reads truthy: for an HTML anchor when the
  attribute is there and resolves to a non-empty string, for an SVG \<^verbatim>\<open>a\<close> always, for
  another element never.\<close>

lemma truthy_hrefOf:
  "truthy (hrefOf resolve host l) \<longleftrightarrow>
     (case linkInterface host of
        HTMLAnchorElement \<Rightarrow> \<exists>v. getAttribute l ''href'' = Some v \<and> resolve v \<noteq> []
      | SVGAElement \<Rightarrow> True
      | OtherElement \<Rightarrow> False)"
  by (simp add: hrefOf_def getUrlProp_def split: interface.splits option.splits)

lemma readsBuiltIns_htmlHost: "readsBuiltIns htmlHost"
  by (simp add: readsBuiltIns_def readsRows_def htmlHost_def)


text \<open>Facts about the store.\<close>

lemma find_append_case:
  "find P (xs @ ys) = (case find P xs of None \<Rightarrow> find P ys | Some x \<Rightarrow> Some x)"
  by (induction xs) auto

lemma subtreeAt_append:
  "subtreeAt n (p @ q) = Option.bind (subtreeAt n p) (\<lambda>e. subtreeAt e q)"
  by (induction p arbitrary: n) auto

text \<open>The path that the search over the store gives leads to the element that the search
  over the value finds.\<close>

lemma selectPath_find:
  "(case selectPath sel n of
      None \<Rightarrow> find (\<lambda>d. localName d = sel) (subtreeElements n) = None
    | Some p \<Rightarrow> \<exists>d. subtreeAt n p = Some d \<and>
                 find (\<lambda>d. localName d = sel) (subtreeElements n) = Some d)"
  and selectPaths_find:
  "(case selectPaths sel i ks of
      None \<Rightarrow> find (\<lambda>d. localName d = sel) (concat (map subtreeElements ks)) = None
    | Some p \<Rightarrow> \<exists>j q d. p = (i + j) # q \<and> j < length ks \<and> subtreeAt (ks ! j) q = Some d \<and>
                 find (\<lambda>d. localName d = sel) (concat (map subtreeElements ks)) = Some d)"
proof (induction sel n and sel i ks rule: selectPath_selectPaths.induct)
  case (1 sel s)
  then show ?case by simp
next
  case (2 sel t atts ks)
  show ?case
  proof (cases "t = sel")
    case True
    then show ?thesis by simp
  next
    case False
    with 2 show ?thesis
      by (auto split: option.splits)
  qed
next
  case (3 sel i)
  then show ?case by simp
next
  case (4 sel i k ks)
  show ?case
  proof (cases "selectPath sel k")
    case None
    with 4 have k: "find (\<lambda>d. localName d = sel) (subtreeElements k) = None"
      by simp
    show ?thesis
    proof (cases "selectPaths sel (Suc i) ks")
      case None': None
      with 4(2)[OF None] k None show ?thesis
        by (simp add: find_append_case)
    next
      case (Some p)
      with 4(2)[OF None] obtain j q d where
        "p = (Suc i + j) # q" "j < length ks" "subtreeAt (ks ! j) q = Some d"
        "find (\<lambda>d. localName d = sel) (concat (map subtreeElements ks)) = Some d"
        by auto
      then have "p = (i + Suc j) # q \<and> Suc j < length (k # ks) \<and>
          subtreeAt ((k # ks) ! Suc j) q = Some d \<and>
          find (\<lambda>d. localName d = sel) (concat (map subtreeElements (k # ks))) = Some d"
        using k by (simp add: find_append_case)
      then show ?thesis
        using None Some by (simp del: find.simps)
    qed
  next
    case (Some p)
    with 4(1) obtain d where "subtreeAt k p = Some d"
      "find (\<lambda>d. localName d = sel) (subtreeElements k) = Some d"
      by auto
    then have "i # p = (i + 0) # p \<and> 0 < length (k # ks) \<and>
          subtreeAt ((k # ks) ! 0) p = Some d \<and>
          find (\<lambda>d. localName d = sel) (concat (map subtreeElements (k # ks))) = Some d"
      by (simp add: find_append_case)
    then show ?thesis
      using Some by (simp del: find.simps)
  qed
qed

lemma lookup_append_old: "fst r < length s \<Longrightarrow> lookup (s @ xs) r = lookup s r"
  by (simp add: lookup_def nth_append)

lemma lookup_SomeD: "lookup s r = Some e \<Longrightarrow> fst r < length s"
  by (simp add: lookup_def split: if_splits)

lemma querySelectorS_append_old:
  "fst r < length s \<Longrightarrow> querySelectorS (s @ xs) r sel = querySelectorS s r sel"
  by (simp add: querySelectorS_def lookup_append_old)

lemma querySelectorS_agrees:
  assumes "lookup s r = Some e"
  shows "(case querySelectorS s r sel of
            None \<Rightarrow> querySelector e sel = None
          | Some r' \<Rightarrow> fst r' = fst r \<and>
                       (\<exists>d. lookup s r' = Some d \<and> querySelector e sel = Some d))"
proof (cases "selectPaths sel 0 (childNodes e)")
  case None
  with selectPaths_find[where sel=sel and i=0 and ks="childNodes e"] assms show ?thesis
    by (simp add: querySelectorS_def querySelector_def)
next
  case (Some p)
  with selectPaths_find[where sel=sel and i=0 and ks="childNodes e"] obtain j q d where
    p: "p = j # q" and j: "j < length (childNodes e)"
    and d: "subtreeAt (childNodes e ! j) q = Some d"
    and f: "find (\<lambda>d. localName d = sel) (concat (map subtreeElements (childNodes e))) = Some d"
    by auto
  from assms obtain t where lt: "fst r < length s" and t: "s ! fst r = Some t"
    and e: "subtreeAt t (snd r) = Some e"
    by (auto simp add: lookup_def split: if_splits Option.bind_splits)
  have "lookup s (fst r, snd r @ j # q) = Some d"
    using lt t e j d by (simp add: lookup_def subtreeAt_append)
  with Some p f assms show ?thesis
    by (simp add: querySelectorS_def querySelector_def)
qed

text \<open>The image found through a reference, after the new picture has been created, is
  an element of the store as it was, and it is the image found in the value.\<close>

lemma image_reference:
  assumes "\<forall>r. dp = Some r \<longrightarrow> lookup s r \<noteq> None"
  shows "(Option.bind dp (\<lambda>p. querySelectorS (s @ xs) p sel) = None \<and>
          Option.bind (Option.bind dp (lookup s)) (\<lambda>e. querySelector e sel) = None) \<or>
         (\<exists>r d. Option.bind dp (\<lambda>p. querySelectorS (s @ xs) p sel) = Some r \<and>
                fst r < length s \<and> lookup s r = Some d \<and>
                Option.bind (Option.bind dp (lookup s)) (\<lambda>e. querySelector e sel) = Some d)"
proof (cases dp)
  case None
  then show ?thesis by simp
next
  case (Some p)
  with assms obtain e where e: "lookup s p = Some e" by auto
  then have lt: "fst p < length s" by (rule lookup_SomeD)
  from querySelectorS_agrees[OF e, of sel] show ?thesis
    using Some e lt by (auto simp add: querySelectorS_append_old split: option.splits)
qed

text \<open>The three paths of the picture builder over the store: the store after the call
  is the store before it followed by the new picture and by the places of the elements
  that were created and moved into the picture.\<close>

lemma crpS_none:
  assumes "Option.bind desktopPicture
             (\<lambda>p. querySelectorS (s @ [Some (Element ''picture'' [] [])]) p ''img'') = None"
      and "Option.bind mobilePicture
             (\<lambda>p. querySelectorS (s @ [Some (Element ''picture'' [] [])]) p ''img'') = None"
  shows "createResponsivePictureS resolve s desktopPicture mobilePicture alt =
           Inr (s @ [Some (Element ''picture'' [] [])], (length s, []))"
  using assms
  by (simp add: createResponsivePictureS_def createElementS_def createElement_def Let_def)

lemma crpS_single:
  assumes di: "Option.bind desktopPicture
                 (\<lambda>p. querySelectorS (s @ [Some (Element ''picture'' [] [])]) p ''img'') =
               desktopImg"
      and mi: "Option.bind mobilePicture
                 (\<lambda>p. querySelectorS (s @ [Some (Element ''picture'' [] [])]) p ''img'') =
               mobileImg"
      and dv: "\<forall>r. desktopImg = Some r \<longrightarrow> fst r < length s \<and> lookup s r = Some (d r)"
      and mv: "\<forall>r. mobileImg = Some r \<longrightarrow> fst r < length s \<and> lookup s r = Some (d r)"
      and one: "desktopImg = None \<or> mobileImg = None \<or>
                (\<exists>rd rm. desktopImg = Some rd \<and> mobileImg = Some rm \<and>
                   getUrlProp resolve (d rd) ''src'' = getUrlProp resolve (d rm) ''src'')"
      and f: "(case desktopImg of Some r \<Rightarrow> Some r | None \<Rightarrow> mobileImg) = Some rf"
      and fe: "d rf = Element t atts ks"
  shows "createResponsivePictureS resolve s desktopPicture mobilePicture alt =
    Inr (s @ [Some (Element ''picture'' []
      [Element t
         (setAttribute (setAttribute atts ''alt'' (js_or alt (getProp (Element t atts ks) ''alt'')))
            ''loading'' ''lazy'')
         ks]), None], (length s, []))"
proof -
  have "desktopImg = Some rf \<or> mobileImg = Some rf"
    using f by (auto split: option.splits)
  then have rf: "fst rf < length s" "lookup s rf = Some (Element t atts ks)"
    using dv mv fe by metis+
  have cond: "(if desktopImg \<noteq> None \<and> mobileImg \<noteq> None
           then andThen (derefS (s @ [Some (Element ''picture'' [] [])]) desktopImg
                           (\<lambda>e. getUrlProp resolve e ''src'')) (\<lambda>d.
                andThen (derefS (s @ [Some (Element ''picture'' [] [])]) mobileImg
                           (\<lambda>e. getUrlProp resolve e ''src'')) (\<lambda>m.
                Inr (d \<noteq> m)))
           else Inr False) = Inr False"
    using one dv mv
    by (auto simp add: derefS_def deref_def andThen_def lookup_append_old)
  have fb: "(if desktopImg \<noteq> None then desktopImg else mobileImg) = Some rf"
    using f by (auto split: option.splits)
  show ?thesis
    unfolding createResponsivePictureS_def createElementS_def createElement_def Let_def
      prod.case di mi cond fb
    using rf
    by (simp add: andThen_def cloneNodeS_def derefS_def deref_def cloneNode_def lookup_append_old
        setPropS_def modify_def appendChildS_def detach_def lookup_def nth_append js_or_again
        js_or_else_Inr list_update_append)
qed

lemma crpS_responsive:
  assumes di: "Option.bind desktopPicture
                 (\<lambda>p. querySelectorS (s @ [Some (Element ''picture'' [] [])]) p ''img'') = Some rd"
      and mi: "Option.bind mobilePicture
                 (\<lambda>p. querySelectorS (s @ [Some (Element ''picture'' [] [])]) p ''img'') = Some rm"
      and rd: "fst rd < length s" "lookup s rd = Some d"
      and rm: "fst rm < length s" "lookup s rm = Some m"
      and ne: "getUrlProp resolve d ''src'' \<noteq> getUrlProp resolve m ''src''"
  shows "createResponsivePictureS resolve s desktopPicture mobilePicture alt =
    Inr (s @ [Some (Element ''picture'' []
      [Element ''source''
         [(''media'', ''(max-width: 767px)''), (''srcset'', getUrlProp resolve m ''src'')] [],
       Element ''source''
         [(''media'', ''(min-width: 768px)''), (''srcset'', getUrlProp resolve d ''src'')] [],
       Element ''img''
         [(''src'', getUrlProp resolve d ''src''),
          (''alt'', js_or alt (getProp d ''alt'')),
          (''loading'', ''lazy'')] []]), None, None, None], (length s, []))"
proof -
  have old: "\<And>xs. lookup (s @ xs) rd = Some d" "\<And>xs. lookup (s @ xs) rm = Some m"
    using rd rm by (simp_all add: lookup_append_old)
  show ?thesis
    unfolding createResponsivePictureS_def createElementS_def createElement_def Let_def
      prod.case di mi
    using ne
    by (simp add: andThen_def derefS_def deref_def old
        setPropS_def modify_def appendChildS_def detach_def nth_append js_or_again
        js_or_else_Inr list_update_append lookup_def[of _ "(length s, [])"]
        lookup_def[of _ "(Suc (length s), [])"]
        lookup_def[of _ "(Suc (Suc (length s)), [])"]
        lookup_def[of _ "(Suc (Suc (Suc (length s))), [])"])
qed

text \<open>For contrast: \<^verbatim>\<open>appendChild\<close> of an image that has a parent takes the image out of
  its parent.\<close>

lemma appendChildS_moves:
  "appendChildS [Some exampleMobile, Some (Element ''picture'' [] [])] (1, []) (0, [0]) =
     Inr [Some (Element ''picture'' [] []),
          Some (Element ''picture'' []
            [Element ''img'' [(''src'', ''https://x/m.png''), (''width'', ''400'')] []])]"
  by (simp add: appendChildS_def lookup_def exampleMobile_def detach_def modify_def derefS_def
      deref_def andThen_def)

section \<open>Properties of the picture builder\<close>

text \<open>
  C1. When both pictures hold an image and the two images' URLs differ, the picture
  builder returns a picture whose children are exactly, in this order: a source with
  media \<^verbatim>\<open>(max-width: 767px)\<close> bound to the mobile URL, a source with media
  \<^verbatim>\<open>(min-width: 768px)\<close> bound to the desktop URL, and an image whose URL is the desktop
  URL, whose alt text is the override when that is a non-empty string, else the desktop
  image's own alt text, else the empty string, and whose loading is \<^verbatim>\<open>lazy\<close>.
\<close>

theorem picture_two_sources_then_fallback:
  assumes "querySelector dp ''img'' = Some d"
      and "querySelector mp ''img'' = Some m"
      and "getUrlProp resolve d ''src'' \<noteq> getUrlProp resolve m ''src''"
  shows "createResponsivePicture resolve (Some dp) (Some mp) alt =
    Inr (Element ''picture'' []
      [Element ''source''
         [(''media'', ''(max-width: 767px)''), (''srcset'', getUrlProp resolve m ''src'')] [],
       Element ''source''
         [(''media'', ''(min-width: 768px)''), (''srcset'', getUrlProp resolve d ''src'')] [],
       Element ''img''
         [(''src'', getUrlProp resolve d ''src''),
          (''alt'', (case alt of
                       Some a \<Rightarrow> if a \<noteq> [] then a
                                 else (case getAttribute d ''alt'' of Some v \<Rightarrow> v | None \<Rightarrow> [])
                     | None \<Rightarrow> (case getAttribute d ''alt'' of Some v \<Rightarrow> v | None \<Rightarrow> []))),
          (''loading'', ''lazy'')] []])"
proof -
  have "js_or alt (getProp d ''alt'') =
        (case alt of
           Some a \<Rightarrow> if a \<noteq> [] then a
                     else (case getAttribute d ''alt'' of Some v \<Rightarrow> v | None \<Rightarrow> [])
         | None \<Rightarrow> (case getAttribute d ''alt'' of Some v \<Rightarrow> v | None \<Rightarrow> []))"
    by (simp add: js_or_def getProp_def split: option.splits)
  with crp_responsive[of "Some dp" d "Some mp" m resolve alt] assms show ?thesis
    by simp
qed

theorem picture_two_sources_then_fallback_witness:
  "querySelector exampleDesktop ''img'' =
     Some (Element ''img'' [(''src'', ''https://x/d.png''), (''alt'', ''Dog'')] []) \<and>
   querySelector exampleMobile ''img'' =
     Some (Element ''img'' [(''src'', ''https://x/m.png''), (''width'', ''400'')] []) \<and>
   createResponsivePicture (\<lambda>u. u) (Some exampleDesktop) (Some exampleMobile) (Some ''A cat'') =
     Inr (Element ''picture'' []
       [Element ''source''
          [(''media'', ''(max-width: 767px)''), (''srcset'', ''https://x/m.png'')] [],
        Element ''source''
          [(''media'', ''(min-width: 768px)''), (''srcset'', ''https://x/d.png'')] [],
        Element ''img''
          [(''src'', ''https://x/d.png''), (''alt'', ''A cat''), (''loading'', ''lazy'')] []])"
proof -
  have d: "querySelector exampleDesktop ''img'' =
     Some (Element ''img'' [(''src'', ''https://x/d.png''), (''alt'', ''Dog'')] [])"
    by (simp add: example_defs eval_defs)
  have m: "querySelector exampleMobile ''img'' =
     Some (Element ''img'' [(''src'', ''https://x/m.png''), (''width'', ''400'')] [])"
    by (simp add: example_defs eval_defs)
  have ne: "getUrlProp (\<lambda>u. u)
              (Element ''img'' [(''src'', ''https://x/d.png''), (''alt'', ''Dog'')] []) ''src'' \<noteq>
            getUrlProp (\<lambda>u. u)
              (Element ''img'' [(''src'', ''https://x/m.png''), (''width'', ''400'')] []) ''src''"
    by (simp add: eval_defs)
  have "createResponsivePicture (\<lambda>u. u) (Some exampleDesktop) (Some exampleMobile)
          (Some ''A cat'') =
     Inr (Element ''picture'' []
       [Element ''source''
          [(''media'', ''(max-width: 767px)''), (''srcset'', ''https://x/m.png'')] [],
        Element ''source''
          [(''media'', ''(min-width: 768px)''), (''srcset'', ''https://x/d.png'')] [],
        Element ''img''
          [(''src'', ''https://x/d.png''), (''alt'', ''A cat''), (''loading'', ''lazy'')] []])"
    using picture_two_sources_then_fallback[OF d m ne, of "Some ''A cat''"]
    by (simp add: getUrlProp_def getAttribute_def)
  with d m show ?thesis by (intro conjI)
qed

text \<open>
  C2. When exactly one of the two pictures holds an image, or both do and the two images'
  URLs are equal, the picture builder returns a picture with exactly one child and no
  source: an image that is a copy of the resolved image (the desktop image when there is
  one, else the mobile image), with the same children and the same attributes except that
  its alt text is the override when that is a non-empty string, else its own alt text,
  else the empty string, and that its loading is \<^verbatim>\<open>lazy\<close>.
\<close>

theorem picture_single_image:
  assumes di: "desktopImg = Option.bind desktopPicture (\<lambda>p. querySelector p ''img'')"
      and mi: "mobileImg = Option.bind mobilePicture (\<lambda>p. querySelector p ''img'')"
      and one: "(desktopImg \<noteq> None \<and> mobileImg = None) \<or>
                (desktopImg = None \<and> mobileImg \<noteq> None) \<or>
                (\<exists>d m. desktopImg = Some d \<and> mobileImg = Some m \<and>
                   getUrlProp resolve d ''src'' = getUrlProp resolve m ''src'')"
      and f: "(case desktopImg of Some d \<Rightarrow> Some d | None \<Rightarrow> mobileImg) = Some f"
      and a: "newAlt =
                (case alt of
                   Some a \<Rightarrow> if a \<noteq> [] then a
                             else (case getAttribute f ''alt'' of Some v \<Rightarrow> v | None \<Rightarrow> [])
                 | None \<Rightarrow> (case getAttribute f ''alt'' of Some v \<Rightarrow> v | None \<Rightarrow> []))"
  shows "\<exists>img. createResponsivePicture resolve desktopPicture mobilePicture alt =
             Inr (Element ''picture'' [] [img]) \<and>
           localName img = ''img'' \<and>
           childNodes img = childNodes f \<and>
           getAttribute img ''alt'' = Some newAlt \<and>
           getAttribute img ''loading'' = Some ''lazy'' \<and>
           (\<forall>k. k \<noteq> ''alt'' \<and> k \<noteq> ''loading'' \<longrightarrow> getAttribute img k = getAttribute f k)"
proof -
  have "desktopImg = Some f \<or> mobileImg = Some f"
    using f by (auto split: option.splits)
  then obtain p where "querySelector p ''img'' = Some f"
    unfolding di mi by (auto split: Option.bind_splits)
  then have "isElement f \<and> localName f = ''img''"
    by (rule querySelector_Some)
  then obtain atts ks where fe: "f = Element ''img'' atts ks"
    by (cases f) auto
  have alt: "js_or alt (getProp (Element ''img'' atts ks) ''alt'') = newAlt"
    by (simp add: a fe js_or_def getProp_def split: option.splits)
  have one': "desktopImg = None \<or> mobileImg = None \<or>
                (\<exists>d m. desktopImg = Some d \<and> mobileImg = Some m \<and>
                   getUrlProp resolve d ''src'' = getUrlProp resolve m ''src'')"
    using one by blast
  from crp_single[OF di[symmetric] mi[symmetric] one' f[unfolded fe], of alt]
  show ?thesis
    by (simp add: alt fe getAttribute_def map_of_setAttribute)
qed

theorem picture_single_image_witness:
  "Option.bind None (\<lambda>p. querySelector p ''img'') = None \<and>
   Option.bind (Some exampleMobile) (\<lambda>p. querySelector p ''img'') =
     Some (Element ''img'' [(''src'', ''https://x/m.png''), (''width'', ''400'')] []) \<and>
   (\<exists>img. createResponsivePicture (\<lambda>u. u) None (Some exampleMobile) None =
             Inr (Element ''picture'' [] [img]) \<and>
           localName img = ''img'' \<and>
           childNodes img = [] \<and>
           getAttribute img ''alt'' = Some [] \<and>
           getAttribute img ''loading'' = Some ''lazy'' \<and>
           getAttribute img ''src'' = Some ''https://x/m.png'' \<and>
           getAttribute img ''width'' = Some ''400'')"
proof -
  let ?m = "Element ''img'' [(''src'', ''https://x/m.png''), (''width'', ''400'')] []"
  have di: "None = Option.bind None (\<lambda>p. querySelector p ''img'')"
    by simp
  have mi': "Option.bind (Some exampleMobile) (\<lambda>p. querySelector p ''img'') = Some ?m"
    by (simp add: example_defs eval_defs)
  note mi = mi'[symmetric]
  have one: "((None :: node option) \<noteq> None \<and> Some ?m = None) \<or>
             ((None :: node option) = None \<and> Some ?m \<noteq> None) \<or>
             (\<exists>d m. None = Some d \<and> Some ?m = Some m \<and>
                getUrlProp (\<lambda>u. u) d ''src'' = getUrlProp (\<lambda>u. u) m ''src'')"
    by simp
  have f: "(case None of Some d \<Rightarrow> Some d | None \<Rightarrow> Some ?m) = Some ?m"
    by simp
  from picture_single_image[OF di mi one f refl, of None]
  obtain img where r: "createResponsivePicture (\<lambda>u. u) None (Some exampleMobile) None =
             Inr (Element ''picture'' [] [img])"
      and n: "localName img = ''img''" and c: "childNodes img = childNodes ?m"
      and a: "getAttribute img ''alt'' =
                Some (case getAttribute ?m ''alt'' of Some v \<Rightarrow> v | None \<Rightarrow> [])"
      and l: "getAttribute img ''loading'' = Some ''lazy''"
      and k: "\<And>k. k \<noteq> ''alt'' \<and> k \<noteq> ''loading'' \<Longrightarrow> getAttribute img k = getAttribute ?m k"
    by auto
  have "getAttribute img ''src'' = Some ''https://x/m.png''"
    using k[of "''src''"] by (simp add: getAttribute_def)
  moreover have "getAttribute img ''width'' = Some ''400''"
    using k[of "''width''"] by (simp add: getAttribute_def)
  moreover have "getAttribute img ''alt'' = Some []"
    using a by (simp add: getAttribute_def)
  moreover have "childNodes img = []"
    using c by simp
  ultimately show ?thesis
    using mi' r n l by simp
qed

text \<open>
  C8. When no image is found in either picture (a picture is absent, or it holds no
  image), the picture builder returns an empty picture element and raises nothing.
\<close>

theorem picture_empty_without_source:
  assumes "Option.bind desktopPicture (\<lambda>p. querySelector p ''img'') = None"
      and "Option.bind mobilePicture (\<lambda>p. querySelector p ''img'') = None"
  shows "createResponsivePicture resolve desktopPicture mobilePicture alt =
           Inr (Element ''picture'' [] [])"
  using assms by (rule crp_none)

theorem picture_empty_without_source_witness:
  "Option.bind (Some (Element ''picture'' [] [Text ''no image'']))
     (\<lambda>p. querySelector p ''img'') = None \<and>
   Option.bind None (\<lambda>p. querySelector p ''img'') = None \<and>
   createResponsivePicture (\<lambda>u. u) (Some (Element ''picture'' [] [Text ''no image''])) None
     (Some ''A cat'') = Inr (Element ''picture'' [] [])"
proof -
  have d: "Option.bind (Some (Element ''picture'' [] [Text ''no image'']))
             (\<lambda>p. querySelector p ''img'') = None"
    by (simp add: eval_defs)
  have m: "Option.bind None (\<lambda>p. querySelector p ''img'') = None"
    by simp
  from picture_empty_without_source[OF d m] d m show ?thesis by simp
qed

section \<open>The picture builder and the elements it is given\<close>

text \<open>
  C7. The picture builder does not change the elements it is given. On every store and
  for every pair of references into it, the call returns; every tree the store held
  before the call is the same tree after it, so every reference into the store denotes
  after the call the element it denoted before (the images found in the two pictures
  among them: the image of the single-image path is copied, it is neither moved nor
  changed); the picture returned is a new tree of the store; and that picture is the
  element the builder computes on the values of its arguments.
\<close>

theorem picture_builder_leaves_sources:
  assumes dv: "\<forall>r. desktopPicture = Some r \<longrightarrow> lookup s r \<noteq> None"
      and mv: "\<forall>r. mobilePicture = Some r \<longrightarrow> lookup s r \<noteq> None"
  shows "\<exists>s' picture element.
           createResponsivePictureS resolve s desktopPicture mobilePicture alt =
             Inr (s', picture) \<and>
           take (length s) s' = s \<and>
           (\<forall>r. fst r < length s \<longrightarrow> lookup s' r = lookup s r) \<and>
           fst picture = length s \<and>
           lookup s' picture = Some element \<and>
           createResponsivePicture resolve
             (Option.bind desktopPicture (lookup s)) (Option.bind mobilePicture (lookup s)) alt =
             Inr element"
proof -
  let ?new = "[Some (Element ''picture'' [] [])]"
  define diS where "diS = Option.bind desktopPicture (\<lambda>p. querySelectorS (s @ ?new) p ''img'')"
  define miS where "miS = Option.bind mobilePicture (\<lambda>p. querySelectorS (s @ ?new) p ''img'')"
  define diV where
    "diV = Option.bind (Option.bind desktopPicture (lookup s)) (\<lambda>e. querySelector e ''img'')"
  define miV where
    "miV = Option.bind (Option.bind mobilePicture (lookup s)) (\<lambda>e. querySelector e ''img'')"
  have D: "(diS = None \<and> diV = None) \<or>
           (\<exists>r d. diS = Some r \<and> fst r < length s \<and> lookup s r = Some d \<and> diV = Some d)"
    unfolding diS_def diV_def by (rule image_reference[OF dv])
  have M: "(miS = None \<and> miV = None) \<or>
           (\<exists>r d. miS = Some r \<and> fst r < length s \<and> lookup s r = Some d \<and> miV = Some d)"
    unfolding miS_def miV_def by (rule image_reference[OF mv])
  have frame: "take (length s) (s @ ys) = s \<and>
               (\<forall>r. fst r < length s \<longrightarrow> lookup (s @ ys) r = lookup s r)" for ys
    by (simp add: lookup_append_old)
  have result: ?thesis
    if S: "createResponsivePictureS resolve s desktopPicture mobilePicture alt =
             Inr (s @ Some e # ys, (length s, []))"
      and V: "createResponsivePicture resolve
             (Option.bind desktopPicture (lookup s)) (Option.bind mobilePicture (lookup s)) alt =
             Inr e"
    for e ys
  proof -
    have "lookup (s @ Some e # ys) (length s, []) = Some e"
      by (simp add: lookup_def)
    with S V frame[of "Some e # ys"] show ?thesis
      by (intro exI[of _ "s @ Some e # ys"] exI[of _ "(length s, [])"] exI[of _ e]) simp
  qed
  have single: ?thesis
    if f: "(case diS of Some r \<Rightarrow> Some r | None \<Rightarrow> miS) = Some rf"
      and l: "lookup s rf = Some f"
      and fv: "(case diV of Some d \<Rightarrow> Some d | None \<Rightarrow> miV) = Some f"
      and oneS: "diS = None \<or> miS = None \<or>
                (\<exists>rd rm. diS = Some rd \<and> miS = Some rm \<and>
                   getUrlProp resolve (the (lookup s rd)) ''src'' =
                   getUrlProp resolve (the (lookup s rm)) ''src'')"
      and oneV: "diV = None \<or> miV = None \<or>
                (\<exists>d m. diV = Some d \<and> miV = Some m \<and>
                   getUrlProp resolve d ''src'' = getUrlProp resolve m ''src'')"
    for rf f
  proof -
    have "diV = Some f \<or> miV = Some f"
      using fv by (auto split: option.splits)
    then obtain p where "querySelector p ''img'' = Some f"
      unfolding diV_def miV_def by (auto split: Option.bind_splits)
    then have "isElement f"
      by (auto dest: querySelector_Some)
    then obtain t atts ks where fe: "f = Element t atts ks"
      by (cases f) auto
    have dS: "\<forall>r. diS = Some r \<longrightarrow> fst r < length s \<and> lookup s r = Some (the (lookup s r))"
      using D by auto
    have mS: "\<forall>r. miS = Some r \<longrightarrow> fst r < length s \<and> lookup s r = Some (the (lookup s r))"
      using M by auto
    have the_f: "the (lookup s rf) = Element t atts ks"
      using l fe by simp
    note S = crpS_single[OF diS_def[symmetric] miS_def[symmetric] dS mS oneS f the_f, of alt]
    note V = crp_single[OF diV_def[symmetric] miV_def[symmetric] oneV fv[unfolded fe], of alt]
    from S V show ?thesis by (rule result)
  qed
  from D M show ?thesis
  proof (elim disjE exE conjE)
    assume n: "diS = None" "diV = None" "miS = None" "miV = None"
    note S = crpS_none[OF n(1)[unfolded diS_def] n(3)[unfolded miS_def], of resolve alt]
    note V = crp_none[OF n(2)[unfolded diV_def] n(4)[unfolded miV_def], of resolve alt]
    from S V show ?thesis by (rule result)
  next
    fix r d
    assume "diS = None" "diV = None" "miS = Some r" "fst r < length s" "lookup s r = Some d"
      "miV = Some d"
    then show ?thesis
      by (intro single[of r d]) simp_all
  next
    fix r d
    assume "diS = Some r" "fst r < length s" "lookup s r = Some d" "diV = Some d"
      "miS = None" "miV = None"
    then show ?thesis
      by (intro single[of r d]) simp_all
  next
    fix rd d rm m
    assume a: "diS = Some rd" "fst rd < length s" "lookup s rd = Some d" "diV = Some d"
      "miS = Some rm" "fst rm < length s" "lookup s rm = Some m" "miV = Some m"
    show ?thesis
    proof (cases "getUrlProp resolve d ''src'' = getUrlProp resolve m ''src''")
      case True
      with a show ?thesis
        by (intro single[of rd d]) simp_all
    next
      case False
      note S = crpS_responsive[OF a(1)[unfolded diS_def] a(5)[unfolded miS_def] a(2) a(3) a(6) a(7)
          False, of alt]
      note V = crp_responsive[OF a(4)[unfolded diV_def] a(8)[unfolded miV_def] False, of alt]
      from S V show ?thesis by (rule result)
    qed
  qed
qed

theorem picture_builder_leaves_sources_witness:
  "lookup [Some (exampleRow exampleMobile)] (0, [0, 0]) = Some exampleMobile \<and>
   (\<exists>s' picture element.
      createResponsivePictureS (\<lambda>u. u) [Some (exampleRow exampleMobile)] None (Some (0, [0, 0]))
        None = Inr (s', picture) \<and>
      take 1 s' = [Some (exampleRow exampleMobile)] \<and>
      lookup s' (0, [0, 0]) = Some exampleMobile \<and>
      lookup s' (0, [0, 0, 0]) =
        Some (Element ''img'' [(''src'', ''https://x/m.png''), (''width'', ''400'')] []) \<and>
      fst picture = 1 \<and>
      lookup s' picture = Some element \<and>
      createResponsivePicture (\<lambda>u. u) None (Some exampleMobile) None = Inr element)"
proof -
  let ?s = "[Some (exampleRow exampleMobile)]"
  have m: "lookup ?s (0, [0, 0]) = Some exampleMobile"
    by (simp add: lookup_def exampleRow_def)
  have i: "lookup ?s (0, [0, 0, 0]) =
      Some (Element ''img'' [(''src'', ''https://x/m.png''), (''width'', ''400'')] [])"
    by (simp add: lookup_def exampleRow_def exampleMobile_def)
  have dv: "\<forall>r. (None :: ref option) = Some r \<longrightarrow> lookup ?s r \<noteq> None"
    by simp
  have mv: "\<forall>r. Some (0, [0, 0]) = Some r \<longrightarrow> lookup ?s r \<noteq> None"
    using m by simp
  from picture_builder_leaves_sources[OF dv mv, of "\<lambda>u. u" None]
  obtain s' picture element where
    r: "createResponsivePictureS (\<lambda>u. u) ?s None (Some (0, [0, 0])) None = Inr (s', picture)"
    and t: "take (length ?s) s' = ?s"
    and old: "\<And>r. fst r < length ?s \<Longrightarrow> lookup s' r = lookup ?s r"
    and p: "fst picture = length ?s" "lookup s' picture = Some element"
    and v: "createResponsivePicture (\<lambda>u. u) (Option.bind None (lookup ?s))
              (Option.bind (Some (0, [0, 0])) (lookup ?s)) None = Inr element"
    by blast
  have "lookup s' (0, [0, 0]) = Some exampleMobile"
    using old[of "(0, [0, 0])"] m by simp
  moreover have "lookup s' (0, [0, 0, 0]) =
      Some (Element ''img'' [(''src'', ''https://x/m.png''), (''width'', ''400'')] [])"
    using old[of "(0, [0, 0, 0])"] i by simp
  moreover have "createResponsivePicture (\<lambda>u. u) None (Some exampleMobile) None = Inr element"
    using v m by simp
  moreover have "take 1 s' = ?s" "fst picture = 1"
    using t p by simp_all
  ultimately show ?thesis
    using m r p(2) by blast
qed

section \<open>Properties of the link wrapper\<close>

text \<open>
  C4. The anchor made by \<open>createLink\<close> carries the \<^verbatim>\<open>rel\<close> attribute exactly when the
  target is \<^verbatim>\<open>_blank\<close>, and its value is then \<^verbatim>\<open>noopener noreferrer\<close>; for every other
  target the attribute is absent.
\<close>

theorem createLink_rel:
  "\<exists>link. createLink href title target picture = Inr link \<and>
          getAttribute link ''rel'' =
            (if target = ''_blank'' then Some ''noopener noreferrer'' else None)"
  by (simp add: createLink_eq getAttribute_def)

text \<open>
  C6. \<open>createLink\<close> returns an anchor on every call. The anchor has its \<^verbatim>\<open>href\<close> and
  \<^verbatim>\<open>target\<close> attributes set to the arguments, whatever string the target is; it has a
  \<^verbatim>\<open>title\<close> attribute exactly when the title argument is not empty; and the wrapped
  element is its only child.
\<close>

theorem createLink_attributes_child:
  "\<exists>link. createLink href title target picture = Inr link \<and>
          localName link = ''a'' \<and>
          getAttribute link ''href'' = Some href \<and>
          getAttribute link ''target'' = Some target \<and>
          getAttribute link ''title'' = (if title \<noteq> [] then Some title else None) \<and>
          childNodes link = [picture]"
  by (simp add: createLink_eq getAttribute_def)

section \<open>Properties of the block decorator\<close>



text \<open>
  C5, as the claim states it, fails: an anchor that carries an empty \<^verbatim>\<open>href\<close> attribute
  is wrapped around the picture when the browser resolves the empty reference to the URL
  of the document, because the code tests the property \<^verbatim>\<open>linkElement.href\<close>, the
  resolved URL, and not the attribute.
\<close>

theorem decorate_wraps_iff_href_counterexample:
  "getAttribute emptyHrefAnchor ''href'' = Some [] \<and>
   decorate documentResolve htmlHost emptyHrefBlock =
     Inr (Element ''div'' [(''class'', ''image-link'')]
       [Element ''a'' [(''href'', ''https://x/page''), (''target'', ''_self'')]
          [Element ''picture'' []
             [Element ''img''
                [(''src'', ''https://x/m.png''), (''width'', ''400''), (''alt'', []),
                 (''loading'', ''lazy'')] []]]])"
  by (simp add: emptyHrefBlock_def emptyHrefAnchor_def example_defs eval_defs decorate_def
      spreadChildren_def rowQuerySelector_def rowTextTrim_def htmlHost_def titleOf_def
      hrefOf_def blockAppendChild_def documentResolve_def createResponsivePicture_def
      createLink_def Let_def andThen_def deref_def createElement_def cloneNode_def
      js_or_else_def)

text \<open>
  C5, amended. For a block that passes the validation gate (a picture is found in row 0
  or in row 1) and whose members and whose rows' members read as the built-in ones,
  \<open>decorate\<close> leaves the block with one child. That child is an anchor whose only child
  is the picture of the picture builder if and only if row 3 holds an element named
  \<^verbatim>\<open>a\<close> whose \<^verbatim>\<open>href\<close> property reads truthy: an HTML anchor that has an \<^verbatim>\<open>href\<close>
  attribute whose value the browser resolves to a non-empty URL, or an SVG \<^verbatim>\<open>a\<close>.
  Otherwise (no such element, an HTML anchor with no \<^verbatim>\<open>href\<close> attribute or with one
  that resolves to the empty string, or an \<^verbatim>\<open>a\<close> of another kind) the child is the
  picture itself.
\<close>

theorem decorate_wraps_iff_href:
  assumes rb: "readsBuiltIns host"
      and rows: "rows = children (Element t atts ks)"
      and dp: "desktopPicture = Option.bind (nth_opt rows 0) (\<lambda>r. querySelector r ''picture'')"
      and mp: "mobilePicture = Option.bind (nth_opt rows 1) (\<lambda>r. querySelector r ''picture'')"
      and alt: "alt = map_option (\<lambda>r. trim (textContent r)) (nth_opt rows 2)"
      and le: "linkElement = Option.bind (nth_opt rows 3) (\<lambda>r. querySelector r ''a'')"
      and gate: "desktopPicture \<noteq> None \<or> mobilePicture \<noteq> None"
  shows "\<exists>picture b.
           createResponsivePicture resolve desktopPicture mobilePicture alt = Inr picture \<and>
           localName picture = ''picture'' \<and>
           decorate resolve host (Element t atts ks) = Inr b \<and>
           localName b = t \<and> attributes b = atts \<and>
           ((\<exists>a. childNodes b = [a] \<and> localName a = ''a'' \<and> childNodes a = [picture]) \<longleftrightarrow>
            (\<exists>l. linkElement = Some l \<and>
                 (case linkInterface host of
                    HTMLAnchorElement \<Rightarrow> \<exists>v. getAttribute l ''href'' = Some v \<and> resolve v \<noteq> []
                  | SVGAElement \<Rightarrow> True
                  | OtherElement \<Rightarrow> False))) \<and>
           ((\<exists>l. linkElement = Some l \<and>
                 (case linkInterface host of
                    HTMLAnchorElement \<Rightarrow> \<exists>v. getAttribute l ''href'' = Some v \<and> resolve v \<noteq> []
                  | SVGAElement \<Rightarrow> True
                  | OtherElement \<Rightarrow> False)) \<or>
            childNodes b = [picture])"
proof -
  obtain picture where
    pic: "createResponsivePicture resolve desktopPicture mobilePicture alt = Inr picture"
    and name: "localName picture = ''picture''"
    using crp_shape[of resolve desktopPicture mobilePicture alt] by (elim exE conjE)
  have ne: "localName picture \<noteq> ''a''"
    by (simp add: name)
  from decorate_child[OF rb dp[unfolded rows children_def childNodes.simps]
      mp[unfolded rows children_def childNodes.simps] gate
      alt[unfolded rows children_def childNodes.simps]
      le[unfolded rows children_def childNodes.simps] pic, of t atts]
  obtain c where b: "decorate resolve host (Element t atts ks) = Inr (Element t atts [c])"
    and c: "if \<exists>l. linkElement = Some l \<and> truthy (hrefOf resolve host l)
            then \<exists>la. c = Element ''a'' la [picture] else c = picture"
    by blast
  show ?thesis
    unfolding truthy_hrefOf[symmetric]
  proof (cases "\<exists>l. linkElement = Some l \<and> truthy (hrefOf resolve host l)")
    case True
    with c obtain la where "c = Element ''a'' la [picture]"
      by auto
    with True pic name b show "\<exists>picture b.
           createResponsivePicture resolve desktopPicture mobilePicture alt = Inr picture \<and>
           localName picture = ''picture'' \<and>
           decorate resolve host (Element t atts ks) = Inr b \<and>
           localName b = t \<and> attributes b = atts \<and>
           ((\<exists>a. childNodes b = [a] \<and> localName a = ''a'' \<and> childNodes a = [picture]) \<longleftrightarrow>
            (\<exists>l. linkElement = Some l \<and> truthy (hrefOf resolve host l))) \<and>
           ((\<exists>l. linkElement = Some l \<and> truthy (hrefOf resolve host l)) \<or>
            childNodes b = [picture])"
      by simp
  next
    case False
    with c have "c = picture" by simp
    with False pic name ne b show "\<exists>picture b.
           createResponsivePicture resolve desktopPicture mobilePicture alt = Inr picture \<and>
           localName picture = ''picture'' \<and>
           decorate resolve host (Element t atts ks) = Inr b \<and>
           localName b = t \<and> attributes b = atts \<and>
           ((\<exists>a. childNodes b = [a] \<and> localName a = ''a'' \<and> childNodes a = [picture]) \<longleftrightarrow>
            (\<exists>l. linkElement = Some l \<and> truthy (hrefOf resolve host l))) \<and>
           ((\<exists>l. linkElement = Some l \<and> truthy (hrefOf resolve host l)) \<or>
            childNodes b = [picture])"
      by auto
  qed
qed

theorem decorate_wraps_iff_href_witness:
  "readsBuiltIns htmlHost \<and>
   Option.bind (nth_opt (children scenarioA) 0) (\<lambda>r. querySelector r ''picture'') \<noteq> None \<and>
   Option.bind (nth_opt (children scenarioA) 3) (\<lambda>r. querySelector r ''a'') = Some exampleAnchor \<and>
   getAttribute exampleAnchor ''href'' = Some ''https://x'' \<and>
   (\<exists>picture b a.
      createResponsivePicture (\<lambda>u. u)
        (Option.bind (nth_opt (children scenarioA) 0) (\<lambda>r. querySelector r ''picture''))
        (Option.bind (nth_opt (children scenarioA) 1) (\<lambda>r. querySelector r ''picture''))
        (map_option (\<lambda>r. trim (textContent r)) (nth_opt (children scenarioA) 2)) = Inr picture \<and>
      decorate (\<lambda>u. u) htmlHost scenarioA = Inr b \<and>
      childNodes b = [a] \<and> localName a = ''a'' \<and> childNodes a = [picture])"
proof -
  have sa: "scenarioA = Element ''div'' [(''class'', ''image-link'')]
     [exampleRow exampleDesktop, exampleRow exampleMobile, exampleRow (Text '' A cat ''),
      exampleRow exampleAnchor, exampleRow (Text ''_blank'')]"
    by (simp add: scenarioA_def exampleBlock_def)
  have d: "Option.bind (nth_opt (children scenarioA) 0) (\<lambda>r. querySelector r ''picture'') \<noteq> None"
    by (simp add: scenarioA_def example_defs eval_defs)
  have l: "Option.bind (nth_opt (children scenarioA) 3) (\<lambda>r. querySelector r ''a'') =
             Some exampleAnchor"
    by (simp add: scenarioA_def example_defs eval_defs)
  have h: "getAttribute exampleAnchor ''href'' = Some ''https://x''"
    by (simp add: example_defs eval_defs)
  have i: "linkInterface htmlHost = HTMLAnchorElement"
    by (simp add: htmlHost_def)
  have g: "Option.bind (nth_opt (children scenarioA) 0) (\<lambda>r. querySelector r ''picture'') \<noteq> None \<or>
           Option.bind (nth_opt (children scenarioA) 1) (\<lambda>r. querySelector r ''picture'') \<noteq> None"
    using d by simp
  from decorate_wraps_iff_href[OF readsBuiltIns_htmlHost refl refl refl refl refl g[unfolded sa],
      of "\<lambda>u. u", folded sa, unfolded i interface.case]
  obtain picture b where
    p: "createResponsivePicture (\<lambda>u. u)
        (Option.bind (nth_opt (children scenarioA) 0) (\<lambda>r. querySelector r ''picture''))
        (Option.bind (nth_opt (children scenarioA) 1) (\<lambda>r. querySelector r ''picture''))
        (map_option (\<lambda>r. trim (textContent r)) (nth_opt (children scenarioA) 2)) = Inr picture"
    and b: "decorate (\<lambda>u. u) htmlHost scenarioA = Inr b"
    and iff: "(\<exists>a. childNodes b = [a] \<and> localName a = ''a'' \<and> childNodes a = [picture]) \<longleftrightarrow>
            (\<exists>l. Option.bind (nth_opt (children scenarioA) 3) (\<lambda>r. querySelector r ''a'') = Some l \<and>
                 (\<exists>v. getAttribute l ''href'' = Some v \<and> v \<noteq> []))"
    by blast
  have "\<exists>l. Option.bind (nth_opt (children scenarioA) 3) (\<lambda>r. querySelector r ''a'') = Some l \<and>
                 (\<exists>v. getAttribute l ''href'' = Some v \<and> v \<noteq> [])"
    using l h by simp
  with iff obtain a where "childNodes b = [a]" "localName a = ''a''" "childNodes a = [picture]"
    by blast
  with p b d l h readsBuiltIns_htmlHost show ?thesis
    by blast
qed

text \<open>
  C9, as the claim states it, fails: on a block that is a form with a control named
  \<^verbatim>\<open>children\<close>, line 97 spreads that control, and \<open>decorate\<close> raises a \<^verbatim>\<open>TypeError\<close>.
\<close>

theorem decorate_always_renders_counterexample:
  "decorate (\<lambda>u. u) formHost formBlock = Inl TypeError"
  by (simp add: decorate_def spreadChildren_def formHost_def formBlock_def andThen_def)

text \<open>
  C9, amended. On every block element whose members and whose rows' members read as the
  built-in ones (no form control of the block is named \<^verbatim>\<open>children\<close> or
  \<^verbatim>\<open>appendChild\<close>, and none of a row is named \<^verbatim>\<open>querySelector\<close> or \<^verbatim>\<open>textContent\<close> as
  read from that row), whatever the number of its rows and whatever they hold,
  \<open>decorate\<close> returns without raising, keeps the block's name and attributes, and leaves
  it with exactly one child: the error text, or a picture (with no child, one image, or
  two sources and one image), or an anchor whose only child is such a picture.
\<close>

theorem decorate_always_renders:
  assumes rb: "readsBuiltIns host"
  shows "\<exists>b. decorate resolve host (Element t atts ks) = Inr b \<and>
        localName b = t \<and> attributes b = atts \<and>
        (childNodes b = [Text ''Image Link: Please add at least one image''] \<or>
         (\<exists>picture.
            localName picture = ''picture'' \<and>
            map localName (childNodes picture) \<in> {[], [''img''], [''source'', ''source'', ''img'']} \<and>
            (childNodes b = [picture] \<or>
             (\<exists>a. localName a = ''a'' \<and> childNodes a = [picture] \<and> childNodes b = [a]))))"
proof -
  define dp where
    "dp = Option.bind (nth_opt (filter isElement ks) 0) (\<lambda>r. querySelector r ''picture'')"
  define mp where
    "mp = Option.bind (nth_opt (filter isElement ks) 1) (\<lambda>r. querySelector r ''picture'')"
  define alt where
    "alt = map_option (\<lambda>r. trim (textContent r)) (nth_opt (filter isElement ks) 2)"
  define le where
    "le = Option.bind (nth_opt (filter isElement ks) 3) (\<lambda>r. querySelector r ''a'')"
  from rb have rr: "readsRows host"
    by (simp add: readsBuiltIns_def)
  show ?thesis
  proof (cases "dp = None \<and> mp = None")
    case True
    have "decorate resolve host (Element t atts ks) =
            Inr (Element t atts [Text ''Image Link: Please add at least one image''])"
      using True by (intro decorate_error[OF rr]) (simp_all add: dp_def mp_def)
    then show ?thesis by simp
  next
    case False
    then have gate: "dp \<noteq> None \<or> mp \<noteq> None" by simp
    obtain picture where
      pic: "createResponsivePicture resolve dp mp alt = Inr picture"
      and name: "localName picture = ''picture''"
      and kids: "map localName (childNodes picture) \<in>
                   {[], [''img''], [''source'', ''source'', ''img'']}"
      using crp_shape[of resolve dp mp alt] by (elim exE conjE)
    from decorate_child[OF rb dp_def mp_def gate alt_def le_def pic, of t atts]
    obtain c where b: "decorate resolve host (Element t atts ks) = Inr (Element t atts [c])"
      and c: "c = picture \<or> (localName c = ''a'' \<and> childNodes c = [picture])"
      by (auto split: if_splits)
    have "childNodes (Element t atts [c]) = [picture] \<or>
          (\<exists>a. localName a = ''a'' \<and> childNodes a = [picture] \<and>
               childNodes (Element t atts [c]) = [a])"
      using c by auto
    with name kids have "\<exists>picture.
            localName picture = ''picture'' \<and>
            map localName (childNodes picture) \<in>
              {[], [''img''], [''source'', ''source'', ''img'']} \<and>
            (childNodes (Element t atts [c]) = [picture] \<or>
             (\<exists>a. localName a = ''a'' \<and> childNodes a = [picture] \<and>
                  childNodes (Element t atts [c]) = [a]))"
      by (intro exI[of _ picture] conjI)
    with b show ?thesis
      by (intro exI[of _ "Element t atts [c]"]) simp
  qed
qed

theorem decorate_always_renders_witness:
  "readsBuiltIns htmlHost \<and>
   (\<exists>b. decorate (\<lambda>u. u) htmlHost (exampleBlock [Text ''stray'', exampleRow exampleMobile]) =
          Inr b \<and>
        localName b = ''div'' \<and> attributes b = [(''class'', ''image-link'')] \<and>
        (childNodes b = [Text ''Image Link: Please add at least one image''] \<or>
         (\<exists>picture.
            localName picture = ''picture'' \<and>
            map localName (childNodes picture) \<in> {[], [''img''], [''source'', ''source'', ''img'']} \<and>
            (childNodes b = [picture] \<or>
             (\<exists>a. localName a = ''a'' \<and> childNodes a = [picture] \<and> childNodes b = [a])))))"
  using decorate_always_renders[OF readsBuiltIns_htmlHost, of "\<lambda>u. u" "''div''"
      "[(''class'', ''image-link'')]" "[Text ''stray'', exampleRow exampleMobile]"]
    readsBuiltIns_htmlHost
  unfolding exampleBlock_def by (intro conjI)



end
